theory Spec2Isabelle
  imports Main "HOL-Library.Sublist" "HOL-Library.AList"
begin

section \<open>Python strings\<close>

text \<open>
  A Python \<open>str\<close> is modelled as a \<open>string\<close> holding its UTF-8 bytes. The operations
  the compiler uses (\<open>startswith\<close>, slicing off an ASCII prefix, \<open>replace\<close> of an ASCII
  pattern, \<open>format\<close>, \<open>lstrip\<close>) act the same on the bytes as on the code points,
  provided \<open>lstrip\<close> recognises the multi-byte white space of Unicode, which it does below.
\<close>

datatype py_error =
    KeyError string
  | IndexError
  | ValueError
  | Unmodelled

text \<open>
  \<open>str.isspace\<close> holds of U+0009..U+000D, U+001C..U+0020, U+0085, U+00A0, U+1680,
  U+2000..U+200A, U+2028, U+2029, U+202F, U+205F and U+3000. \<open>space_width s\<close> is the
  number of bytes of such a code point at the start of \<open>s\<close>, and 0 when there is none.
\<close>

definition space_width :: "string \<Rightarrow> nat" where
  "space_width s =
     (case map of_char s :: nat list of
        [] \<Rightarrow> 0
      | a # r \<Rightarrow>
          if (9 \<le> a \<and> a \<le> 13) \<or> (28 \<le> a \<and> a \<le> 32) then 1
          else (case r of
                  [] \<Rightarrow> 0
                | b # r' \<Rightarrow>
                    if a = 0xC2 \<and> (b = 0x85 \<or> b = 0xA0) then 2
                    else (case r' of
                            [] \<Rightarrow> 0
                          | c # _ \<Rightarrow>
                              if a = 0xE1 \<and> b = 0x9A \<and> c = 0x80 then 3
                              else if a = 0xE2 \<and> b = 0x80 \<and>
                                      ((0x80 \<le> c \<and> c \<le> 0x8A) \<or> c = 0xA8 \<or> c = 0xA9 \<or> c = 0xAF)
                                   then 3
                              else if a = 0xE2 \<and> b = 0x81 \<and> c = 0x9F then 3
                              else if a = 0xE3 \<and> b = 0x80 \<and> c = 0x80 then 3
                              else 0)))"

function lstrip :: "string \<Rightarrow> string" where
  "lstrip s = (if space_width s = 0 then s else lstrip (drop (space_width s) s))"
  by pat_completeness auto
termination
proof (relation "measure length")
  show "wf (measure length)" by simp
next
  fix s :: string
  assume "space_width s \<noteq> 0"
  moreover from this have "s \<noteq> []" by (auto simp: space_width_def)
  ultimately show "(drop (space_width s) s, s) \<in> measure length" by simp
qed

declare lstrip.simps [simp del]

text \<open>\<open>s.startswith(p)\<close> is \<^const>\<open>prefix\<close>.\<close>

text \<open>
  \<open>s.replace(old, new)\<close> for a non-empty \<open>old\<close>: every occurrence, leftmost first, not
  overlapping. (For an empty \<open>old\<close> Python inserts \<open>new\<close> around every character; the
  compiler only calls it with a fixed non-empty pattern, and the model returns \<open>s\<close>
  unchanged there.)
\<close>

function replace :: "string \<Rightarrow> string \<Rightarrow> string \<Rightarrow> string" where
  "replace old new [] = []"
| "replace old new (c # cs) =
     (if old \<noteq> [] \<and> prefix old (c # cs)
      then new @ replace old new (drop (length old) (c # cs))
      else c # replace old new cs)"
  by pat_completeness auto
termination
  by (relation "measure (\<lambda>(old, new, s). length s)") (auto simp: prefix_def)

declare replace.simps(2) [simp del]

subsection \<open>\<open>str.format\<close> with keyword arguments only\<close>

text \<open>
  The fragment of \<open>str.format(**kw)\<close> that is modelled: literal text, the escapes
  \<open>{{\<close> and \<open>}}\<close>, and plain replacement fields \<open>{name}\<close>.
  \<^item> a lone \<open>}\<close>, a \<open>{\<close> that is never closed and a \<open>{\<close> inside a field name raise
    \<open>ValueError\<close>;
  \<^item> an empty or all-digit field name is positional, and there are no positional
    arguments: \<open>IndexError\<close> (the digits are the ASCII digits);
  \<^item> a name that is not a keyword raises \<open>KeyError\<close>;
  \<^item> a field with an attribute, an index, a conversion or a format specification
    (the characters \<open>.\<close> \<open>[\<close> \<open>!\<close> \<open>:\<close>) is outside the fragment: the model answers
    \<open>Unmodelled\<close> and says nothing about what Python does there.
  Errors are raised left to right, as Python renders the string incrementally.
\<close>

type_synonym kwargs = "(string \<times> string) list"

definition is_digit :: "char \<Rightarrow> bool" where
  "is_digit c \<longleftrightarrow> (let n = of_char c :: nat in 48 \<le> n \<and> n \<le> 57)"

definition field_special :: "char \<Rightarrow> bool" where
  "field_special c \<longleftrightarrow> c \<in> set ''{.[!:''"

definition lookup_field :: "kwargs \<Rightarrow> string \<Rightarrow> py_error + string" where
  "lookup_field kw name =
     (case find field_special name of
        Some c \<Rightarrow> if c = CHR ''{'' then Inl ValueError else Inl Unmodelled
      | None \<Rightarrow>
          if list_all is_digit name then Inl IndexError
          else (case map_of kw name of
                  None \<Rightarrow> Inl (KeyError name)
                | Some v \<Rightarrow> Inr v))"

fun prepend :: "string \<Rightarrow> py_error + string \<Rightarrow> py_error + string" where
  "prepend s (Inl e) = Inl e"
| "prepend s (Inr r) = Inr (s @ r)"

function format_str :: "kwargs \<Rightarrow> string \<Rightarrow> py_error + string" where
  "format_str kw [] = Inr []"
| "format_str kw (c # cs) =
     (if c = CHR ''{'' then
        (if cs \<noteq> [] \<and> hd cs = CHR ''{'' then prepend ''{'' (format_str kw (tl cs))
         else if CHR ''}'' \<notin> set cs then Inl ValueError
         else (case lookup_field kw (takeWhile (\<lambda>d. d \<noteq> CHR ''}'') cs) of
                 Inl e \<Rightarrow> Inl e
               | Inr v \<Rightarrow> prepend v (format_str kw (tl (dropWhile (\<lambda>d. d \<noteq> CHR ''}'') cs)))))
      else if c = CHR ''}'' then
        (if cs \<noteq> [] \<and> hd cs = CHR ''}'' then prepend ''}'' (format_str kw (tl cs))
         else Inl ValueError)
      else prepend [c] (format_str kw cs))"
  by pat_completeness auto
termination
proof (relation "measure (\<lambda>(kw, s). length s)", goal_cases)
  case 1
  show ?case by simp
next
  case (2 kw c cs)
  then show ?case by (cases cs) auto
next
  case (3 kw c cs x)
  have "length (dropWhile (\<lambda>d. d \<noteq> CHR ''}'') cs) \<le> length cs"
    by (rule length_dropWhile_le)
  then show ?case by simp
next
  case (4 kw c cs)
  then show ?case by (cases cs) auto
next
  case (5 kw c cs)
  then show ?case by simp
qed

declare format_str.simps(2) [simp del]

text \<open>\<open>sep.join(xs)\<close>.\<close>

fun join :: "string \<Rightarrow> string list \<Rightarrow> string" where
  "join sep [] = []"
| "join sep [x] = x"
| "join sep (x # y # ys) = x @ sep @ join sep (y # ys)"

text \<open>\<open>str(i)\<close> of a Python integer: decimal digits, with a minus sign when negative.\<close>

definition digit_char :: "nat \<Rightarrow> char" where
  "digit_char d = char_of (48 + d)"

function str_of_nat :: "nat \<Rightarrow> string" where
  "str_of_nat n = (if n < 10 then [digit_char n] else str_of_nat (n div 10) @ [digit_char (n mod 10)])"
  by pat_completeness auto
termination
  by (relation "measure id") auto

declare str_of_nat.simps [simp del]

definition str_of_int :: "int \<Rightarrow> string" where
  "str_of_int i = (if i < 0 then CHR ''-'' # str_of_nat (nat (- i)) else str_of_nat (nat i))"

section \<open>The column specification\<close>

text \<open>
  Modelled from the spec: \<open>app/models/spec.py\<close> (the classes \<open>Column\<close>,
  \<open>ColumnTransformations\<close> and their parts) is not among the sources. The fields are those
  that \<open>compiler.py\<close> and \<open>executor.py\<close> read, with the types of section 3 of the
  specification. The two fields that the code tests for truth (\<open>custom_expression\<close>,
  \<open>type_cast\<close>) are optional strings, so that both \<open>None\<close> and the empty string are
  covered; \<open>truthy\<close> is Python's truth of such a value.
\<close>

record regex_transform =
  regex_enabled :: bool
  regex_pattern :: string
  regex_replacement :: string

record where_filter_transform =
  where_enabled :: bool
  where_condition :: string

record conditional_case =
  case_when :: string
  case_then :: string

record conditional_transform =
  conditional_enabled :: bool
  conditional_cases :: "conditional_case list"
  conditional_else_value :: string

record delimiter_split_transform =
  split_enabled :: bool
  split_delimiter :: string
  split_index :: int

record column_transformations =
  trim :: bool
  strip_special_chars :: bool
  regex :: regex_transform
  case_normalization :: string
  type_cast :: "string option"
  null_strategy :: string
  null_replacement :: string
  where_filter :: where_filter_transform
  conditional :: conditional_transform
  delimiter_split :: delimiter_split_transform
  custom_expression :: "string option"

record column =
  name :: string
  data_type :: string
  nullable :: bool
  transformations :: column_transformations
  column_notes :: string

definition truthy :: "string option \<Rightarrow> bool" where
  "truthy v = (case v of None \<Rightarrow> False | Some s \<Rightarrow> s \<noteq> [])"

definition str_value :: "string option \<Rightarrow> string" where
  "str_value v = (case v of None \<Rightarrow> [] | Some s \<Rightarrow> s)"

section \<open>The template registry\<close>

text \<open>
  \<open>app/services/templates.py\<close> is not among the sources. The table \<open>TEMPLATES\<close>, a
  dictionary from template keys to dictionaries from dialects to template strings, is a
  parameter of the compiler below.
\<close>

type_synonym templates = "string \<rightharpoonup> (string \<rightharpoonup> string)"

text \<open>
  Modelled from the spec: \<open>TRANSFORM_ORDER\<close> of \<open>app/services/templates.py\<close>, which is
  not among the sources. Section 4.1 of the specification fixes the order of the nine
  steps; the names are those that the loop of \<open>compile_column\<close> compares with.
\<close>

definition TRANSFORM_ORDER :: "string list" where
  "TRANSFORM_ORDER =
     [''trim'', ''strip_special'', ''regex'', ''case_normalization'', ''type_cast'',
      ''null_strategy'', ''where_filter'', ''conditional'', ''delimiter_split'']"

section \<open>\<open>TransformCompiler.compile_column\<close>\<close>

definition WARNING_PREFIX :: string where
  "WARNING_PREFIX = ''__WARNING__:''"

definition PYSPARK_COL_PATTERN :: string where
  "PYSPARK_COL_PATTERN = ''F.col('' @ [CHR 0x27] @ ''{col}'' @ [CHR 0x27] @ '')''"

record compiled_column =
  column_name :: string
  expression :: string
  alias_name :: string
  warnings :: "string list"
  target :: string
  dialect :: string

text \<open>The variables that the closure \<open>_apply\<close> updates.\<close>

record cstate =
  expr :: string
  pyspark_applied :: bool
  warns :: "string list"

text \<open>\<open>TEMPLATES.get(template_key, {}).get(tgt_dialect, "")\<close>\<close>

definition template_for :: "templates \<Rightarrow> string \<Rightarrow> string \<Rightarrow> string" where
  "template_for T template_key tgt_dialect =
     (case T template_key of
        None \<Rightarrow> []
      | Some by_dialect \<Rightarrow> (case by_dialect tgt_dialect of None \<Rightarrow> [] | Some tmpl \<Rightarrow> tmpl))"

text \<open>The closure \<open>_apply(template_key, extra)\<close>; a failing \<open>format\<close> raises.\<close>

definition apply_template ::
  "templates \<Rightarrow> column \<Rightarrow> string \<Rightarrow> string \<Rightarrow> string \<Rightarrow> kwargs \<Rightarrow> cstate \<Rightarrow> py_error + cstate"
where
  "apply_template T col tgt tgt_dialect template_key extra st =
     (let tmpl = template_for T template_key tgt_dialect in
      if tmpl = [] then Inr st
      else if prefix WARNING_PREFIX tmpl
      then Inr (st\<lparr>warns := warns st @ [lstrip (drop (length WARNING_PREFIX) tmpl)]\<rparr>)
      else if tgt = ''pyspark'' then
        (if \<not> pyspark_applied st then
           (case format_str ((''col'', name col) # extra) tmpl of
              Inl e \<Rightarrow> Inl e
            | Inr filled \<Rightarrow> Inr (st\<lparr>expr := filled, pyspark_applied := True\<rparr>))
         else
           (case format_str ((''col'', expr st) # extra)
                   (replace PYSPARK_COL_PATTERN ''{col}'' tmpl) of
              Inl e \<Rightarrow> Inl e
            | Inr filled \<Rightarrow> Inr (st\<lparr>expr := filled\<rparr>)))
      else
        (case format_str ((''col'', expr st) # extra) tmpl of
           Inl e \<Rightarrow> Inl e
         | Inr filled \<Rightarrow> Inr (st\<lparr>expr := filled\<rparr>)))"

text \<open>
  The call of \<open>_apply\<close>, if any, that the body of the loop makes for one step name:
  the template key and the extra keyword arguments. A step name that the loop does not
  know makes no call.
\<close>

definition step_call :: "column_transformations \<Rightarrow> string \<Rightarrow> (string \<times> kwargs) option" where
  "step_call t step =
     (if step = ''trim'' then
        (if trim t then Some (''trim'', []) else None)
      else if step = ''strip_special'' then
        (if strip_special_chars t then Some (''strip_special'', []) else None)
      else if step = ''regex'' then
        (if regex_enabled (regex t)
         then Some (''regex_replace'',
                [(''pattern'', regex_pattern (regex t)), (''repl'', regex_replacement (regex t))])
         else None)
      else if step = ''case_normalization'' then
        (if case_normalization t \<noteq> ''none''
         then Some (''case_'' @ case_normalization t, []) else None)
      else if step = ''type_cast'' then
        (if truthy (type_cast t)
         then Some (''cast_'' @ str_value (type_cast t),
                [(''type'', str_value (type_cast t)), (''format'', ''YYYY-MM-DD'')])
         else None)
      else if step = ''null_strategy'' then
        (if null_strategy t = ''replace''
         then Some (''null_replace'', [(''replacement'', null_replacement t)])
         else if null_strategy t = ''drop'' then Some (''null_drop'', [])
         else if null_strategy t = ''flag'' then Some (''null_flag'', [])
         else None)
      else if step = ''where_filter'' then
        (if where_enabled (where_filter t)
         then Some (''where_filter'', [(''condition'', where_condition (where_filter t))])
         else None)
      else if step = ''conditional'' then
        (if conditional_enabled (conditional t) \<and> conditional_cases (conditional t) \<noteq> []
         then Some (''conditional_case'',
                [(''cases'',
                  join '' ''
                    (map (\<lambda>c. ''WHEN '' @ case_when c @ '' THEN '' @ [CHR 0x27] @ case_then c
                                @ [CHR 0x27])
                       (conditional_cases (conditional t)))),
                 (''else_value'', conditional_else_value (conditional t))])
         else None)
      else if step = ''delimiter_split'' then
        (if split_enabled (delimiter_split t)
         then Some (''delimiter_split'',
                [(''delimiter'', split_delimiter (delimiter_split t)),
                 (''index'', str_of_int (split_index (delimiter_split t)))])
         else None)
      else None)"

definition transform_step ::
  "templates \<Rightarrow> column \<Rightarrow> string \<Rightarrow> string \<Rightarrow> string \<Rightarrow> cstate \<Rightarrow> py_error + cstate"
where
  "transform_step T col tgt tgt_dialect step st =
     (case step_call (transformations col) step of
        None \<Rightarrow> Inr st
      | Some (template_key, extra) \<Rightarrow> apply_template T col tgt tgt_dialect template_key extra st)"

text \<open>The loop \<open>for step in TRANSFORM_ORDER\<close>; an exception ends it.\<close>

fun run_steps ::
  "templates \<Rightarrow> column \<Rightarrow> string \<Rightarrow> string \<Rightarrow> string list \<Rightarrow> cstate \<Rightarrow> py_error + cstate"
where
  "run_steps T col tgt tgt_dialect [] st = Inr st"
| "run_steps T col tgt tgt_dialect (step # steps) st =
     (case transform_step T col tgt tgt_dialect step st of
        Inl e \<Rightarrow> Inl e
      | Inr st' \<Rightarrow> run_steps T col tgt tgt_dialect steps st')"

definition initial_state :: "column \<Rightarrow> string \<Rightarrow> cstate" where
  "initial_state col tgt =
     \<lparr>expr = (if tgt = ''pyspark'' then ''F.col('' @ [CHR 0x27] @ name col @ [CHR 0x27] @ '')''
              else name col),
      pyspark_applied = False,
      warns = []\<rparr>"

definition result_of :: "column \<Rightarrow> string \<Rightarrow> string \<Rightarrow> cstate \<Rightarrow> compiled_column" where
  "result_of col tgt dial st =
     \<lparr>column_name = name col, expression = expr st, alias_name = name col,
      warnings = warns st, target = tgt, dialect = dial\<rparr>"

definition compile_column ::
  "templates \<Rightarrow> column \<Rightarrow> string \<Rightarrow> string \<Rightarrow> py_error + compiled_column"
where
  "compile_column T col tgt dial =
     (let t = transformations col in
      if truthy (custom_expression t) then
        Inr \<lparr>column_name = name col, expression = str_value (custom_expression t),
             alias_name = name col, warnings = [], target = tgt, dialect = dial\<rparr>
      else
        (let tgt_dialect = (if tgt = ''pyspark'' then ''pyspark'' else dial) in
         case run_steps T col tgt tgt_dialect TRANSFORM_ORDER (initial_state col tgt) of
           Inl e \<Rightarrow> Inl e
         | Inr st \<Rightarrow> Inr (result_of col tgt dial st)))"

section \<open>\<open>DuckDBExecutor\<close>\<close>

text \<open>
  A Python dictionary with string keys is an association list with distinct keys in
  insertion order: \<open>d[k] = v\<close> is \<^const>\<open>AList.update\<close>, \<open>d.get(k)\<close> is
  \<^const>\<open>map_of\<close>. A value is \<open>None\<close> (Python's \<open>None\<close>) or \<open>Some v\<close>.
\<close>

type_synonym 'v row = "(string \<times> 'v option) list"

text \<open>\<open>dict(zip(columns, row))\<close>: \<open>zip\<close> stops at the shorter list, a later duplicate key
  overwrites the value of the earlier one.\<close>

definition dict_zip :: "string list \<Rightarrow> 'v option list \<Rightarrow> 'v row" where
  "dict_zip cols vals = foldl (\<lambda>d (k, v). AList.update k v d) [] (zip cols vals)"

text \<open>
  The embedded engine (DuckDB, with pandas for the registration) is a parameter. A
  connection is a value of type \<open>'c\<close>; \<open>Inl msg\<close> is an exception \<open>exc\<close> raised by the
  engine, with \<open>str(exc) = msg\<close>.
  \<^item> \<open>connect\<close>: \<open>duckdb.connect(":memory:")\<close>;
  \<^item> \<open>register c table_name data\<close>: \<open>pd.DataFrame(data)\<close>, then \<open>conn.register\<close>;
  \<^item> \<open>execute c query\<close>: \<open>conn.execute(query)\<close>, \<open>conn.description\<close> (the column names,
    or \<open>None\<close>) and \<open>conn.fetchall()\<close>.
\<close>

record ('c, 'v) engine =
  connect :: "string + 'c"
  register :: "'c \<Rightarrow> string \<Rightarrow> 'v row list \<Rightarrow> string + 'c"
  execute :: "'c \<Rightarrow> string \<Rightarrow> string + (string list option \<times> 'v option list list)"

text \<open>The calls that reach the connection, in order.\<close>

datatype event = Connect | Register string | Execute string | Close

record 'v exec_result =
  success :: bool
  rows :: "'v row list"
  columns :: "string list"
  row_count :: nat
  error :: string

definition failure :: "string \<Rightarrow> 'v exec_result" where
  "failure msg = \<lparr>success = False, rows = [], columns = [], row_count = 0, error = msg\<rparr>"

definition execute_sql ::
  "('c, 'v) engine \<Rightarrow> string \<Rightarrow> 'v row list \<Rightarrow> string \<Rightarrow> 'v exec_result \<times> event list"
where
  "execute_sql eng query data table_name =
     (case connect eng of
        Inl msg \<Rightarrow> (failure msg, [])
      | Inr conn \<Rightarrow>
          (case (if data \<noteq> [] then register eng conn table_name data else Inr conn) of
             Inl msg \<Rightarrow> (failure msg, [Connect, Register table_name])
           | Inr conn' \<Rightarrow>
               (let evs = (if data \<noteq> [] then [Connect, Register table_name] else [Connect]) in
                case execute eng conn' query of
                  Inl msg \<Rightarrow> (failure msg, evs @ [Execute query])
                | Inr (description, rows_raw) \<Rightarrow>
                    (let cols = (case description of None \<Rightarrow> [] | Some d \<Rightarrow> d);
                         rs = map (dict_zip cols) rows_raw
                     in (\<lparr>success = True, rows = rs, columns = cols,
                          row_count = length rs, error = []\<rparr>,
                         evs @ [Execute query, Close])))))"

subsection \<open>Assertions\<close>

text \<open>An assertion is a dictionary; the keys other than \<open>type\<close> and \<open>description\<close> are
  present for some types only.\<close>

record assertion =
  a_type :: string
  a_min :: "int option"
  a_column :: "string option"
  a_expected_type :: "string option"
  a_description :: string

record assertion_result =
  r_type :: string
  r_description :: string
  r_passed :: bool
  r_detail :: string

definition generate_assertions :: "column \<Rightarrow> assertion list" where
  "generate_assertions col =
     [\<lparr>a_type = ''row_count_gte'', a_min = Some 1, a_column = None, a_expected_type = None,
       a_description = ''output has at least 1 row''\<rparr>]
     @ (if \<not> nullable col
        then [\<lparr>a_type = ''not_null'', a_min = None, a_column = Some (name col),
                a_expected_type = None, a_description = name col @ '' has no nulls''\<rparr>]
        else [])
     @ (if truthy (type_cast (transformations col))
        then [\<lparr>a_type = ''type_check'', a_min = None, a_column = Some (name col),
                a_expected_type = Some (str_value (type_cast (transformations col))),
                a_description =
                  name col @ '' cast to '' @ str_value (type_cast (transformations col))\<rparr>]
        else [])
     @ (if regex_enabled (regex (transformations col))
        then [\<lparr>a_type = ''no_error'', a_min = None, a_column = Some (name col),
                a_expected_type = None, a_description = ''regex applied without errors''\<rparr>]
        else [])"

text \<open>\<open>r.get(col) is None\<close>: the key is missing or its value is \<open>None\<close>.\<close>

definition is_null :: "'v row \<Rightarrow> string \<Rightarrow> bool" where
  "is_null r col = (case map_of r col of None \<Rightarrow> True | Some v \<Rightarrow> v = None)"

text \<open>Reading a key that the assertion does not have raises \<open>KeyError\<close>.\<close>

definition run_assertion :: "assertion \<Rightarrow> 'v row list \<Rightarrow> py_error + assertion_result" where
  "run_assertion a rs =
     (if a_type a = ''row_count_gte'' then
        (case a_min a of
           None \<Rightarrow> Inl (KeyError ''min'')
         | Some m \<Rightarrow>
             (let passed = (int (length rs) \<ge> m) in
              Inr \<lparr>r_type = a_type a, r_description = a_description a, r_passed = passed,
                   r_detail = (if passed then []
                     else ''Expected >= '' @ str_of_int m @ '' rows, got ''
                          @ str_of_nat (length rs))\<rparr>))
      else if a_type a = ''not_null'' then
        (case a_column a of
           None \<Rightarrow> Inl (KeyError ''column'')
         | Some col \<Rightarrow>
             (let null_count = length (filter (\<lambda>r. is_null r col) rs);
                  passed = (null_count = 0) in
              Inr \<lparr>r_type = a_type a, r_description = a_description a, r_passed = passed,
                   r_detail = (if passed then []
                     else str_of_nat null_count @ '' null(s) found in '' @ [CHR 0x27] @ col
                          @ [CHR 0x27])\<rparr>))
      else if a_type a = ''type_check'' then
        Inr \<lparr>r_type = a_type a, r_description = a_description a, r_passed = True, r_detail = []\<rparr>
      else if a_type a = ''no_error'' then
        Inr \<lparr>r_type = a_type a, r_description = a_description a, r_passed = True, r_detail = []\<rparr>
      else
        Inr \<lparr>r_type = a_type a, r_description = a_description a, r_passed = False,
             r_detail = ''Unknown assertion type: '' @ a_type a\<rparr>)"

subsection \<open>\<open>validate_table\<close>\<close>

text \<open>
  The table specification, as far as \<open>validate_table\<close> reads it:
  \<open>table_spec["table"]["name"]\<close> and \<open>table_spec["columns"]\<close>, the latter after
  \<open>Column.model_validate\<close>, which is part of the missing \<open>app/models/spec.py\<close>.
\<close>

record table_spec =
  table_name :: string
  table_columns :: "column list"

record column_report =
  cr_passed :: bool
  cr_assertions :: "assertion_result list"

record execution_meta =
  ex_success :: bool
  ex_row_count :: nat
  ex_error :: string

record validation_report =
  passed :: bool
  total_assertions :: nat
  passed_count :: nat
  failed_count :: nat
  execution :: execution_meta
  columns_report :: "(string \<times> column_report) list"

text \<open>\<open>[self.run_assertion(a, rows) for a in assertions]\<close>; an exception ends it.\<close>

fun run_assertions :: "assertion list \<Rightarrow> 'v row list \<Rightarrow> py_error + assertion_result list" where
  "run_assertions [] rs = Inr []"
| "run_assertions (a # as) rs =
     (case run_assertion a rs of
        Inl e \<Rightarrow> Inl e
      | Inr r \<Rightarrow> (case run_assertions as rs of Inl e \<Rightarrow> Inl e | Inr rest \<Rightarrow> Inr (r # rest)))"

text \<open>The loop over \<open>table_spec["columns"]\<close>, threading \<open>all_results\<close> and
  \<open>columns_report\<close>.\<close>

fun validate_columns ::
  "column list \<Rightarrow> 'v row list \<Rightarrow> assertion_result list \<times> (string \<times> column_report) list
     \<Rightarrow> py_error + (assertion_result list \<times> (string \<times> column_report) list)"
where
  "validate_columns [] rs acc = Inr acc"
| "validate_columns (col # cols) rs (all_results, report) =
     (case run_assertions (generate_assertions col) rs of
        Inl e \<Rightarrow> Inl e
      | Inr col_results \<Rightarrow>
          validate_columns cols rs
            (all_results @ col_results,
             AList.update (name col)
               \<lparr>cr_passed = list_all r_passed col_results, cr_assertions = col_results\<rparr>
               report))"

definition validate_table ::
  "('c, 'v) engine \<Rightarrow> table_spec \<Rightarrow> string \<Rightarrow> 'v row list \<Rightarrow> py_error + validation_report"
where
  "validate_table eng ts compiled_sql synthetic_data =
     (let exec_result = fst (execute_sql eng compiled_sql synthetic_data (table_name ts)) in
      case validate_columns (table_columns ts) (rows exec_result) ([], []) of
        Inl e \<Rightarrow> Inl e
      | Inr (all_results, report) \<Rightarrow>
          (let total = length all_results;
               n_passed = length (filter r_passed all_results)
           in Inr \<lparr>passed = (n_passed = total \<and> total > 0),
                   total_assertions = total,
                   passed_count = n_passed,
                   failed_count = total - n_passed,
                   execution = \<lparr>ex_success = success exec_result,
                                ex_row_count = row_count exec_result,
                                ex_error = error exec_result\<rparr>,
                   columns_report = report\<rparr>))"

section \<open>Sample inputs\<close>

text \<open>
  A small template table in the style that the tests of the repository show (\<open>TRIM\<close>,
  \<open>LTRIM\<close> for T-SQL, \<open>UPPER\<close>, \<open>REGEXP_REPLACE\<close> with a warning marker for T-SQL),
  used to run the compiler on concrete inputs. It is not the table of the repository.
\<close>

definition sample_templates :: templates where
  "sample_templates =
     map_of
      [(''trim'',
        map_of [(''snowflake_sql'', ''TRIM({col})''),
                (''tsql'', ''LTRIM(RTRIM({col}))''),
                (''pyspark'', ''F.trim(F.col('' @ [CHR 0x27] @ ''{col}'' @ [CHR 0x27] @ ''))'')]),
       (''case_upper'',
        map_of [(''snowflake_sql'', ''UPPER({col})''),
                (''tsql'', ''UPPER({col})''),
                (''pyspark'', ''F.upper(F.col('' @ [CHR 0x27] @ ''{col}'' @ [CHR 0x27] @ ''))'')]),
       (''regex_replace'',
        map_of [(''snowflake_sql'',
                 ''REGEXP_REPLACE({col}, '' @ [CHR 0x27] @ ''{pattern}'' @ [CHR 0x27] @ '', ''
                   @ [CHR 0x27] @ ''{repl}'' @ [CHR 0x27] @ '')''),
                (''tsql'', ''__WARNING__: T-SQL has no REGEXP_REPLACE'')])]"

text \<open>The transformations with every step inert, and a column that has them.\<close>

definition inert :: column_transformations where
  "inert =
     \<lparr>trim = False, strip_special_chars = False,
      regex = \<lparr>regex_enabled = False, regex_pattern = [], regex_replacement = []\<rparr>,
      case_normalization = ''none'', type_cast = None,
      null_strategy = ''none'', null_replacement = [],
      where_filter = \<lparr>where_enabled = False, where_condition = []\<rparr>,
      conditional = \<lparr>conditional_enabled = False, conditional_cases = [],
                      conditional_else_value = []\<rparr>,
      delimiter_split = \<lparr>split_enabled = False, split_delimiter = [], split_index = 0\<rparr>,
      custom_expression = None\<rparr>"

definition sample_column :: "string \<Rightarrow> column_transformations \<Rightarrow> column" where
  "sample_column n t =
     \<lparr>name = n, data_type = ''string'', nullable = True, transformations = t,
      column_notes = []\<rparr>"

text \<open>
  A toy engine to run the executor on concrete inputs: a connection is the list of the
  registered relations, and the only statement it knows is \<open>SELECT * FROM name\<close>.
\<close>

definition sample_engine :: "((string \<times> int row list) list, int) engine" where
  "sample_engine =
     \<lparr>connect = Inr [],
      register = (\<lambda>conn table_name data. Inr ((table_name, data) # conn)),
      execute = (\<lambda>conn query.
        if take 14 query \<noteq> ''SELECT * FROM '' then Inl ''Parser Error: syntax error''
        else (case map_of conn (drop 14 query) of
                None \<Rightarrow> Inl ''Catalog Error: Table does not exist''
              | Some [] \<Rightarrow> Inr (Some [], [])
              | Some (r # rs) \<Rightarrow> Inr (Some (map fst r), map (map snd) (r # rs))))\<rparr>"

definition sample_table :: table_spec where
  "sample_table =
     \<lparr>table_name = ''test_table'',
      table_columns =
        [\<lparr>name = ''id'', data_type = ''integer'', nullable = False, transformations = inert,
          column_notes = []\<rparr>,
         \<lparr>name = ''name'', data_type = ''string'', nullable = True, transformations = inert,
          column_notes = []\<rparr>]\<rparr>"

definition sample_rows :: "int row list" where
  "sample_rows = [[(''id'', Some 1), (''name'', Some 10)], [(''id'', None), (''name'', Some 20)]]"

text \<open>The number of assertion results of one type.\<close>

definition count_type :: "string \<Rightarrow> assertion_result list \<Rightarrow> nat" where
  "count_type ty rs = length (filter (\<lambda>r. r_type r = ty) rs)"

definition sample_phone :: column where
  "sample_phone =
     sample_column ''phone''
       (inert\<lparr>trim := True,
              regex := \<lparr>regex_enabled = True, regex_pattern = ''[0-9]+'',
                        regex_replacement = ''X''\<rparr>,
              case_normalization := ''upper''\<rparr>)"

definition sample_conditional :: column where
  "sample_conditional =
     sample_column ''c''
       (inert\<lparr>trim := True,
              conditional := \<lparr>conditional_enabled = True, conditional_cases = [],
                              conditional_else_value = ''other''\<rparr>\<rparr>)"

definition sample_empty_regex :: column where
  "sample_empty_regex =
     sample_column ''c''
       (inert\<lparr>regex := \<lparr>regex_enabled = True, regex_pattern = [],
                        regex_replacement = []\<rparr>\<rparr>)"

definition sample_rows_ok :: "int row list" where
  "sample_rows_ok = [[(''id'', Some 1), (''name'', Some 10)], [(''id'', Some 2), (''name'', None)]]"



text \<open>A table for which the conditional step has a template.\<close>

definition sample_conditional_templates :: templates where
  "sample_conditional_templates =
     sample_templates
       (''conditional_case'' \<mapsto>
          map_of [(''snowflake_sql'',
                   ''CASE {cases} ELSE '' @ [CHR 0x27] @ ''{else_value}'' @ [CHR 0x27] @ '' END'')])"

text \<open>The columns of the sample table, a table with one plain nullable column, and the
  result of a row-count assertion on no rows.\<close>

definition sample_id_column :: column where
  "sample_id_column =
     \<lparr>name = ''id'', data_type = ''integer'', nullable = False, transformations = inert,
      column_notes = []\<rparr>"

definition sample_name_column :: column where
  "sample_name_column =
     \<lparr>name = ''name'', data_type = ''string'', nullable = True, transformations = inert,
      column_notes = []\<rparr>"

definition row_count_failed :: assertion_result where
  "row_count_failed =
     \<lparr>r_type = ''row_count_gte'', r_description = ''output has at least 1 row'',
      r_passed = False, r_detail = ''Expected >= 1 rows, got 0''\<rparr>"

definition sample_plain_table :: table_spec where
  "sample_plain_table =
     \<lparr>table_name = ''plain'', table_columns = [sample_column ''name'' inert]\<rparr>"

section \<open>Notions used in the statements\<close>

text \<open>No step of the loop makes a call of \<open>_apply\<close>: every guard of the loop body is false.\<close>

definition no_active_step :: "column_transformations \<Rightarrow> bool" where
  "no_active_step t \<longleftrightarrow>
     \<not> trim t \<and> \<not> strip_special_chars t \<and> \<not> regex_enabled (regex t)
     \<and> case_normalization t = ''none'' \<and> \<not> truthy (type_cast t)
     \<and> null_strategy t \<noteq> ''replace'' \<and> null_strategy t \<noteq> ''drop''
     \<and> null_strategy t \<noteq> ''flag''
     \<and> \<not> where_enabled (where_filter t)
     \<and> \<not> (conditional_enabled (conditional t) \<and> conditional_cases (conditional t) \<noteq> [])
     \<and> \<not> split_enabled (delimiter_split t)"

text \<open>The same column with the conditional step switched off.\<close>

definition disable_conditional :: "column \<Rightarrow> column" where
  "disable_conditional col =
     col\<lparr>transformations := (transformations col)
          \<lparr>conditional := (conditional (transformations col))\<lparr>conditional_enabled := False\<rparr>\<rparr>\<rparr>"







text \<open>The assertions that \<open>validate_table\<close> derives, column after column.\<close>

definition derived_assertions :: "table_spec \<Rightarrow> assertion list" where
  "derived_assertions ts = concat (map generate_assertions (table_columns ts))"

text \<open>The result of a derived assertion on an empty list of rows.\<close>

definition result_on_no_rows :: "assertion \<Rightarrow> assertion_result" where
  "result_on_no_rows a =
     \<lparr>r_type = a_type a, r_description = a_description a,
      r_passed = (a_type a \<noteq> ''row_count_gte''),
      r_detail = (if a_type a = ''row_count_gte'' then ''Expected >= 1 rows, got 0'' else [])\<rparr>"

text \<open>Every exception of the engine has a message.\<close>

definition engine_messages_nonempty :: "('c, 'v) engine \<Rightarrow> bool" where
  "engine_messages_nonempty eng \<longleftrightarrow>
     (\<forall>m. connect eng = Inl m \<longrightarrow> m \<noteq> [])
     \<and> (\<forall>c n d m. register eng c n d = Inl m \<longrightarrow> m \<noteq> [])
     \<and> (\<forall>c q m. execute eng c q = Inl m \<longrightarrow> m \<noteq> [])"

section \<open>Properties of the column compiler\<close>

text \<open>
  C1. When \<open>custom_expression\<close> is set (not \<open>None\<close> and not empty), \<open>compile_column\<close>
  returns it verbatim as the expression, the column name as the alias and no warnings,
  whatever the template table, the target, the dialect and the other fields of the
  column specification are.
\<close>

theorem compile_column_custom_expression:
  assumes "custom_expression (transformations col) = Some e" and "e \<noteq> []"
  shows "compile_column T col tgt dial =
           Inr \<lparr>column_name = name col, expression = e, alias_name = name col,
                warnings = [], target = tgt, dialect = dial\<rparr>"
  using assms by (simp add: compile_column_def truthy_def str_value_def)

text \<open>The test \<open>test_custom_expression_bypass\<close>: \<open>trim\<close> is active as well.\<close>

theorem compile_column_custom_expression_witness:
  "custom_expression (transformations (sample_column ''c''
       (inert\<lparr>trim := True, custom_expression := Some ''MY_CUSTOM_FUNC(col)''\<rparr>)))
     = Some ''MY_CUSTOM_FUNC(col)''
   \<and> ''MY_CUSTOM_FUNC(col)'' \<noteq> []
   \<and> compile_column sample_templates
         (sample_column ''c'' (inert\<lparr>trim := True, custom_expression := Some ''MY_CUSTOM_FUNC(col)''\<rparr>))
         ''sql'' ''snowflake_sql''
       = Inr \<lparr>column_name = ''c'', expression = ''MY_CUSTOM_FUNC(col)'', alias_name = ''c'',
              warnings = [], target = ''sql'', dialect = ''snowflake_sql''\<rparr>"
  using compile_column_custom_expression
          [of "sample_column ''c'' (inert\<lparr>trim := True, custom_expression := Some ''MY_CUSTOM_FUNC(col)''\<rparr>)"
              "''MY_CUSTOM_FUNC(col)''" sample_templates "''sql''" "''snowflake_sql''"]
  by (simp add: sample_column_def inert_def)

subsection \<open>The loop over the steps\<close>

lemma run_steps_append:
  "run_steps T col tgt td (xs @ ys) st =
     (case run_steps T col tgt td xs st of
        Inl e \<Rightarrow> Inl e
      | Inr st' \<Rightarrow> run_steps T col tgt td ys st')"
  by (induction xs arbitrary: st) (auto split: sum.splits)

lemma run_steps_inactive:
  "(\<And>step. step \<in> set steps \<Longrightarrow> step_call (transformations col) step = None) \<Longrightarrow>
   run_steps T col tgt td steps st = Inr st"
  by (induction steps arbitrary: st) (auto simp: transform_step_def)

lemma step_call_no_active: "no_active_step t \<Longrightarrow> step_call t step = None"
  unfolding no_active_step_def step_call_def by auto

text \<open>
  C6. A column with no custom expression and no active step compiles to its bare
  reference, for every template table, target and dialect: the column name, or
  \<open>F.col('name')\<close> for the target \<open>pyspark\<close>. Nothing raises, and there is no warning.
\<close>

theorem compile_column_bare_reference:
  assumes "\<not> truthy (custom_expression (transformations col))"
      and "no_active_step (transformations col)"
  shows "compile_column T col tgt dial =
           Inr \<lparr>column_name = name col,
                expression = (if tgt = ''pyspark''
                              then ''F.col('' @ [CHR 0x27] @ name col @ [CHR 0x27] @ '')''
                              else name col),
                alias_name = name col, warnings = [], target = tgt, dialect = dial\<rparr>"
proof -
  have "run_steps T col tgt td TRANSFORM_ORDER st = Inr st" for td st
    by (rule run_steps_inactive) (simp add: step_call_no_active [OF assms(2)])
  with assms(1) show ?thesis
    by (simp add: compile_column_def result_of_def initial_state_def)
qed

text \<open>An all-default column, for the SQL target and for the dataframe target.\<close>

theorem compile_column_bare_reference_witness:
  "\<not> truthy (custom_expression (transformations (sample_column ''email'' inert)))
   \<and> no_active_step (transformations (sample_column ''email'' inert))
   \<and> compile_column sample_templates (sample_column ''email'' inert) ''sql'' ''snowflake_sql''
       = Inr \<lparr>column_name = ''email'', expression = ''email'', alias_name = ''email'',
              warnings = [], target = ''sql'', dialect = ''snowflake_sql''\<rparr>
   \<and> compile_column sample_templates (sample_column ''email'' inert) ''pyspark'' ''pyspark''
       = Inr \<lparr>column_name = ''email'',
              expression = ''F.col('' @ [CHR 0x27] @ ''email'' @ [CHR 0x27] @ '')'',
              alias_name = ''email'', warnings = [], target = ''pyspark'',
              dialect = ''pyspark''\<rparr>"
  using compile_column_bare_reference
          [of "sample_column ''email'' inert" sample_templates "''sql''" "''snowflake_sql''"]
        compile_column_bare_reference
          [of "sample_column ''email'' inert" sample_templates "''pyspark''" "''pyspark''"]
  by (simp add: sample_column_def inert_def truthy_def no_active_step_def)

lemma apply_template_warning:
  assumes "prefix WARNING_PREFIX (template_for T key td)"
  shows "apply_template T col tgt td key extra st =
           Inr (st\<lparr>warns := warns st
                  @ [lstrip (drop (length WARNING_PREFIX) (template_for T key td))]\<rparr>)"
proof -
  from assms have "template_for T key td \<noteq> []"
    by (auto simp: WARNING_PREFIX_def)
  with assms show ?thesis by (simp add: apply_template_def Let_def)
qed

text \<open>
  C5. Let a step of \<open>TRANSFORM_ORDER\<close> be active, and let the template of its key for the
  effective dialect be a warning marker (it starts with \<open>__WARNING__:\<close>). Then, in the
  state \<open>st\<close> that the steps before it have produced, the step appends the text of the
  marker (the template without the prefix and without leading white space) to the
  warnings and changes nothing else: the expression stays as it is, and
  \<open>compile_column\<close> goes on with the steps after it from that state.
\<close>

theorem compile_column_warning_marker:
  assumes custom: "\<not> truthy (custom_expression (transformations col))"
      and td: "td = (if tgt = ''pyspark'' then ''pyspark'' else dial)"
      and order: "TRANSFORM_ORDER = before @ step # after"
      and before: "run_steps T col tgt td before (initial_state col tgt) = Inr st"
      and active: "step_call (transformations col) step = Some (key, extra)"
      and marker: "prefix WARNING_PREFIX (template_for T key td)"
  shows "transform_step T col tgt td step st =
           Inr (st\<lparr>warns := warns st
                  @ [lstrip (drop (length WARNING_PREFIX) (template_for T key td))]\<rparr>)
       \<and> compile_column T col tgt dial =
           (case run_steps T col tgt td after
                   (st\<lparr>warns := warns st
                      @ [lstrip (drop (length WARNING_PREFIX) (template_for T key td))]\<rparr>) of
              Inl e \<Rightarrow> Inl e
            | Inr st' \<Rightarrow> Inr (result_of col tgt dial st'))"
proof -
  let ?st = "st\<lparr>warns := warns st
                 @ [lstrip (drop (length WARNING_PREFIX) (template_for T key td))]\<rparr>"
  have step: "transform_step T col tgt td step st = Inr ?st"
    using active apply_template_warning [OF marker]
    by (simp add: transform_step_def)
  have "run_steps T col tgt td TRANSFORM_ORDER (initial_state col tgt)
          = run_steps T col tgt td after ?st"
    unfolding order by (simp add: run_steps_append before step)
  with custom td step show ?thesis
    by (simp add: compile_column_def Let_def)
qed


text \<open>The test \<open>test_tsql_regex_warning\<close>, with \<open>trim\<close> and \<open>upper\<close> around the regex step.\<close>

theorem compile_column_warning_marker_witness:
  "\<not> truthy (custom_expression (transformations sample_phone))
   \<and> TRANSFORM_ORDER = [''trim'', ''strip_special''] @ ''regex'' #
        [''case_normalization'', ''type_cast'', ''null_strategy'', ''where_filter'',
         ''conditional'', ''delimiter_split'']
   \<and> run_steps sample_templates sample_phone ''sql'' ''tsql'' [''trim'', ''strip_special'']
         (initial_state sample_phone ''sql'')
       = Inr \<lparr>expr = ''LTRIM(RTRIM(phone))'', pyspark_applied = False, warns = []\<rparr>
   \<and> step_call (transformations sample_phone) ''regex''
       = Some (''regex_replace'', [(''pattern'', ''[0-9]+''), (''repl'', ''X'')])
   \<and> prefix WARNING_PREFIX (template_for sample_templates ''regex_replace'' ''tsql'')
   \<and> transform_step sample_templates sample_phone ''sql'' ''tsql'' ''regex''
         \<lparr>expr = ''LTRIM(RTRIM(phone))'', pyspark_applied = False, warns = []\<rparr>
       = Inr \<lparr>expr = ''LTRIM(RTRIM(phone))'', pyspark_applied = False,
              warns = [''T-SQL has no REGEXP_REPLACE'']\<rparr>
   \<and> compile_column sample_templates sample_phone ''sql'' ''tsql''
       = Inr \<lparr>column_name = ''phone'', expression = ''UPPER(LTRIM(RTRIM(phone)))'',
              alias_name = ''phone'', warnings = [''T-SQL has no REGEXP_REPLACE''],
              target = ''sql'', dialect = ''tsql''\<rparr>"
proof -
  let ?st = "\<lparr>expr = ''LTRIM(RTRIM(phone))'', pyspark_applied = False, warns = []\<rparr>"
  have h1: "\<not> truthy (custom_expression (transformations sample_phone))"
    by (simp add: sample_phone_def sample_column_def inert_def truthy_def)
  have h2: "''tsql'' = (if ''sql'' = ''pyspark'' then ''pyspark'' else ''tsql'')"
    by simp
  have h3: "TRANSFORM_ORDER = [''trim'', ''strip_special''] @ ''regex'' #
        [''case_normalization'', ''type_cast'', ''null_strategy'', ''where_filter'',
         ''conditional'', ''delimiter_split'']"
    by (simp add: TRANSFORM_ORDER_def)
  have h4: "run_steps sample_templates sample_phone ''sql'' ''tsql'' [''trim'', ''strip_special'']
         (initial_state sample_phone ''sql'') = Inr ?st"
    by code_simp
  have h5: "step_call (transformations sample_phone) ''regex''
       = Some (''regex_replace'', [(''pattern'', ''[0-9]+''), (''repl'', ''X'')])"
    by code_simp
  have h6: "prefix WARNING_PREFIX (template_for sample_templates ''regex_replace'' ''tsql'')"
    by code_simp
  have tmpl: "lstrip (drop (length WARNING_PREFIX)
                 (template_for sample_templates ''regex_replace'' ''tsql''))
              = ''T-SQL has no REGEXP_REPLACE''"
    by code_simp
  have rest: "run_steps sample_templates sample_phone ''sql'' ''tsql''
        [''case_normalization'', ''type_cast'', ''null_strategy'', ''where_filter'',
         ''conditional'', ''delimiter_split'']
        \<lparr>expr = ''LTRIM(RTRIM(phone))'', pyspark_applied = False,
              warns = [''T-SQL has no REGEXP_REPLACE'']\<rparr>
     = Inr \<lparr>expr = ''UPPER(LTRIM(RTRIM(phone)))'', pyspark_applied = False,
              warns = [''T-SQL has no REGEXP_REPLACE'']\<rparr>"
    by code_simp
  have nm: "name sample_phone = ''phone''"
    by (simp add: sample_phone_def sample_column_def)
  let ?st2 = "\<lparr>expr = ''LTRIM(RTRIM(phone))'', pyspark_applied = False,
                 warns = [''T-SQL has no REGEXP_REPLACE'']\<rparr>"
  from compile_column_warning_marker [OF h1 h2 h3 h4 h5 h6]
  have c1: "transform_step sample_templates sample_phone ''sql'' ''tsql'' ''regex'' ?st = Inr ?st2"
   and c2: "compile_column sample_templates sample_phone ''sql'' ''tsql'' =
              (case run_steps sample_templates sample_phone ''sql'' ''tsql''
                      [''case_normalization'', ''type_cast'', ''null_strategy'',
                       ''where_filter'', ''conditional'', ''delimiter_split''] ?st2 of
                 Inl e \<Rightarrow> Inl e
               | Inr st' \<Rightarrow> Inr (result_of sample_phone ''sql'' ''tsql'' st'))"
    by (simp_all add: tmpl del: run_steps.simps)
  have c3: "compile_column sample_templates sample_phone ''sql'' ''tsql''
       = Inr \<lparr>column_name = ''phone'', expression = ''UPPER(LTRIM(RTRIM(phone)))'',
              alias_name = ''phone'', warnings = [''T-SQL has no REGEXP_REPLACE''],
              target = ''sql'', dialect = ''tsql''\<rparr>"
    unfolding c2 rest by (simp add: result_of_def nm)
  from h1 h3 h4 h5 h6 c1 c3 show ?thesis by blast
qed

lemma apply_template_name:
  "name col = name col' \<Longrightarrow>
   apply_template T col tgt td key extra st = apply_template T col' tgt td key extra st"
  by (simp add: apply_template_def cong: if_cong)

lemma run_steps_same_calls:
  assumes "name col = name col'"
      and "\<And>step. step_call (transformations col) step = step_call (transformations col') step"
  shows "run_steps T col tgt td steps st = run_steps T col' tgt td steps st"
proof (induction steps arbitrary: st)
  case Nil
  show ?case by simp
next
  case (Cons step steps)
  have "transform_step T col tgt td step st = transform_step T col' tgt td step st"
    using assms(2) [of step] apply_template_name [OF assms(1)]
    by (simp add: transform_step_def split: option.splits)
  with Cons show ?case by (simp split: sum.splits)
qed

text \<open>
  C9, amended. A conditional step that is enabled with an empty list of cases is treated
  as inactive: it leaves the state as it is (no rewrite, no warning), and the column
  compiles to what it compiles to with the conditional step switched off, for every
  template table, target and dialect.
\<close>

theorem compile_column_conditional_without_cases:
  assumes "conditional_enabled (conditional (transformations col))"
      and "conditional_cases (conditional (transformations col)) = []"
  shows "transform_step T col tgt td ''conditional'' st = Inr st
       \<and> compile_column T col tgt dial = compile_column T (disable_conditional col) tgt dial"
proof -
  have calls: "step_call (transformations col) step
                = step_call (transformations (disable_conditional col)) step" for step
    using assms(2) by (simp add: step_call_def disable_conditional_def)
  have nm: "name col = name (disable_conditional col)"
    by (simp add: disable_conditional_def)
  have "run_steps T col tgt td' TRANSFORM_ORDER st' =
        run_steps T (disable_conditional col) tgt td' TRANSFORM_ORDER st'" for td' st'
    by (rule run_steps_same_calls [OF nm calls])
  moreover have "initial_state col tgt = initial_state (disable_conditional col) tgt"
    by (simp add: initial_state_def disable_conditional_def)
  moreover have "result_of col tgt dial = result_of (disable_conditional col) tgt dial"
    by (simp add: result_of_def disable_conditional_def fun_eq_iff)
  moreover have "custom_expression (transformations (disable_conditional col))
                   = custom_expression (transformations col)"
    by (simp add: disable_conditional_def)
  moreover have "transform_step T col tgt td ''conditional'' st = Inr st"
    using assms(2) by (simp add: transform_step_def step_call_def)
  ultimately show ?thesis
    by (simp add: compile_column_def Let_def nm [symmetric] cong: sum.case_cong if_cong)
qed

text \<open>
  A column with \<open>trim\<close> and with a conditional that is enabled and has no cases, for a
  table that has a template for the conditional step: the step is skipped all the same.
\<close>

theorem compile_column_conditional_without_cases_witness:
  "conditional_enabled (conditional (transformations sample_conditional))
   \<and> conditional_cases (conditional (transformations sample_conditional)) = []
   \<and> template_for sample_conditional_templates ''conditional_case'' ''snowflake_sql''
       = ''CASE {cases} ELSE '' @ [CHR 0x27] @ ''{else_value}'' @ [CHR 0x27] @ '' END''
   \<and> transform_step sample_conditional_templates sample_conditional ''sql'' ''snowflake_sql''
         ''conditional'' \<lparr>expr = ''TRIM(c)'', pyspark_applied = False, warns = []\<rparr>
       = Inr \<lparr>expr = ''TRIM(c)'', pyspark_applied = False, warns = []\<rparr>
   \<and> compile_column sample_conditional_templates sample_conditional ''sql'' ''snowflake_sql''
       = compile_column sample_conditional_templates (disable_conditional sample_conditional)
           ''sql'' ''snowflake_sql''
   \<and> compile_column sample_conditional_templates (disable_conditional sample_conditional)
         ''sql'' ''snowflake_sql''
       = Inr \<lparr>column_name = ''c'', expression = ''TRIM(c)'', alias_name = ''c'',
              warnings = [], target = ''sql'', dialect = ''snowflake_sql''\<rparr>"
proof -
  have h1: "conditional_enabled (conditional (transformations sample_conditional))"
    by (simp add: sample_conditional_def sample_column_def inert_def)
  have h2: "conditional_cases (conditional (transformations sample_conditional)) = []"
    by (simp add: sample_conditional_def sample_column_def inert_def)
  have t: "template_for sample_conditional_templates ''conditional_case'' ''snowflake_sql''
       = ''CASE {cases} ELSE '' @ [CHR 0x27] @ ''{else_value}'' @ [CHR 0x27] @ '' END''"
    by (simp add: sample_conditional_templates_def template_for_def)
  have d: "compile_column sample_conditional_templates (disable_conditional sample_conditional)
         ''sql'' ''snowflake_sql''
       = Inr \<lparr>column_name = ''c'', expression = ''TRIM(c)'', alias_name = ''c'',
              warnings = [], target = ''sql'', dialect = ''snowflake_sql''\<rparr>"
    by code_simp
  from compile_column_conditional_without_cases [OF h1 h2] h1 h2 t d
  show ?thesis by blast
qed

text \<open>With one case, the same table applies the template of the conditional step.\<close>

lemma conditional_with_a_case_rewrites:
  "compile_column sample_conditional_templates
     (sample_column ''c''
        (inert\<lparr>trim := True,
               conditional := \<lparr>conditional_enabled = True,
                               conditional_cases = [\<lparr>case_when = ''c = 1'', case_then = ''one''\<rparr>],
                               conditional_else_value = ''other''\<rparr>\<rparr>))
     ''sql'' ''snowflake_sql''
   = Inr \<lparr>column_name = ''c'',
          expression = ''CASE WHEN c = 1 THEN '' @ [CHR 0x27] @ ''one'' @ [CHR 0x27]
                         @ '' ELSE '' @ [CHR 0x27] @ ''other'' @ [CHR 0x27] @ '' END'',
          alias_name = ''c'', warnings = [], target = ''sql'', dialect = ''snowflake_sql''\<rparr>"
  by code_simp


text \<open>
  C9 as stated fails: a regex step that is enabled with an empty pattern and an empty
  replacement is applied all the same. With a template for \<open>regex_replace\<close>, the
  expression is rewritten, and differs from that of the column without the step.
\<close>

theorem compile_column_empty_regex_counterexample:
  "compile_column sample_templates sample_empty_regex ''sql'' ''snowflake_sql''
     = Inr \<lparr>column_name = ''c'',
            expression = ''REGEXP_REPLACE(c, '' @ [CHR 0x27, CHR 0x27] @ '', ''
                           @ [CHR 0x27, CHR 0x27] @ '')'',
            alias_name = ''c'', warnings = [], target = ''sql'', dialect = ''snowflake_sql''\<rparr>
   \<and> compile_column sample_templates (sample_column ''c'' inert) ''sql'' ''snowflake_sql''
     = Inr \<lparr>column_name = ''c'', expression = ''c'',
            alias_name = ''c'', warnings = [], target = ''sql'', dialect = ''snowflake_sql''\<rparr>"
  by code_simp

subsection \<open>Filling templates\<close>

















section \<open>Properties of the executor\<close>

text \<open>
  C7. \<open>execute_sql\<close> is total: whatever the engine raises at \<open>connect\<close>, at the
  registration or at the execution is caught and becomes the failure result with the
  text of the exception, so every call returns a result and a failure is never
  propagated. A result that is not a success has no rows, no columns,
  the row count 0 and the text of the exception as its error, which is not empty when
  the messages of the engine are not. With an empty list of input rows nothing is
  registered, and the query runs on the fresh connection, so that a failure of the
  engine there (the relation is unknown) is the result.
\<close>

theorem execute_sql_failure_shape:
  assumes "engine_messages_nonempty eng"
  shows "(connect eng = Inl m \<longrightarrow> fst (execute_sql eng q data tn) = failure m)
       \<and> (connect eng = Inr c \<longrightarrow> data \<noteq> [] \<longrightarrow> register eng c tn data = Inl m \<longrightarrow>
            fst (execute_sql eng q data tn) = failure m)
       \<and> (connect eng = Inr c \<longrightarrow>
            (if data \<noteq> [] then register eng c tn data else Inr c) = Inr c' \<longrightarrow>
            execute eng c' q = Inl m \<longrightarrow>
            fst (execute_sql eng q data tn) = failure m)
       \<and> (\<not> success (fst (execute_sql eng q data tn)) \<longrightarrow>
            rows (fst (execute_sql eng q data tn)) = []
          \<and> columns (fst (execute_sql eng q data tn)) = []
          \<and> row_count (fst (execute_sql eng q data tn)) = 0
          \<and> error (fst (execute_sql eng q data tn)) \<noteq> [])
       \<and> (data = [] \<longrightarrow>
            (\<forall>t. Register t \<notin> set (snd (execute_sql eng q data tn)))
          \<and> (\<forall>c m. connect eng = Inr c \<longrightarrow> execute eng c q = Inl m \<longrightarrow>
                 fst (execute_sql eng q data tn) = failure m))"
  using assms
  by (auto simp: execute_sql_def Let_def failure_def engine_messages_nonempty_def
           split: sum.splits prod.splits)

text \<open>Querying the table name itself after an empty list of rows.\<close>

theorem execute_sql_failure_shape_witness:
  "engine_messages_nonempty sample_engine
   \<and> \<not> success (fst (execute_sql sample_engine ''SELECT * FROM customers'' [] ''customers''))
   \<and> rows (fst (execute_sql sample_engine ''SELECT * FROM customers'' [] ''customers'')) = []
   \<and> columns (fst (execute_sql sample_engine ''SELECT * FROM customers'' [] ''customers'')) = []
   \<and> row_count (fst (execute_sql sample_engine ''SELECT * FROM customers'' [] ''customers'')) = 0
   \<and> error (fst (execute_sql sample_engine ''SELECT * FROM customers'' [] ''customers'')) \<noteq> []
   \<and> fst (execute_sql sample_engine ''SELECT * FROM customers'' [] ''customers'')
       = failure ''Catalog Error: Table does not exist''"
proof -
  have h: "engine_messages_nonempty sample_engine"
    by (auto simp: engine_messages_nonempty_def sample_engine_def
             split: if_splits option.splits list.splits)
  have f: "\<not> success (fst (execute_sql sample_engine ''SELECT * FROM customers'' [] ''customers''))"
    by code_simp
  have c: "connect sample_engine = Inr []"
    by (simp add: sample_engine_def)
  have e: "execute sample_engine [] ''SELECT * FROM customers''
             = Inl ''Catalog Error: Table does not exist''"
    by (simp add: sample_engine_def)
  from execute_sql_failure_shape
         [OF h, where q = "''SELECT * FROM customers''" and data = "[]" and tn = "''customers''"]
       h f c e
  show ?thesis by (simp add: failure_def)
qed

text \<open>
  C3 fails on the code. The connection is opened by the call and sees one query, but
  \<open>conn.close()\<close> is on the successful path only: the handler of the exception returns
  without closing. So \<open>Close\<close> is among the calls exactly when the result is a success;
  for the query of the test \<open>test_execute_returns_error_dict\<close> the calls are \<open>Connect\<close>
  and \<open>Execute\<close>, and no \<open>Close\<close>.
\<close>

theorem execute_sql_close_only_on_success:
  "(Close \<in> set (snd (execute_sql eng q data tn))) = success (fst (execute_sql eng q data tn))
   \<and> execute_sql sample_engine ''SELECT * FROM nonexistent_table_xyz'' [] ''customers''
       = (\<lparr>success = False, rows = [], columns = [], row_count = 0,
            error = ''Catalog Error: Table does not exist''\<rparr>,
          [Connect, Execute ''SELECT * FROM nonexistent_table_xyz''])"
proof
  show "(Close \<in> set (snd (execute_sql eng q data tn))) = success (fst (execute_sql eng q data tn))"
    by (auto simp: execute_sql_def Let_def failure_def split: sum.splits prod.splits)
  show "execute_sql sample_engine ''SELECT * FROM nonexistent_table_xyz'' [] ''customers''
       = (\<lparr>success = False, rows = [], columns = [], row_count = 0,
            error = ''Catalog Error: Table does not exist''\<rparr>,
          [Connect, Execute ''SELECT * FROM nonexistent_table_xyz''])"
    by code_simp
qed

subsection \<open>Validation\<close>

lemma run_assertion_generated:
  "a \<in> set (generate_assertions col) \<Longrightarrow> \<exists>r. run_assertion a rs = Inr r"
  by (auto simp: generate_assertions_def run_assertion_def Let_def split: if_splits)

lemma run_assertions_total:
  "(\<And>a. a \<in> set as \<Longrightarrow> \<exists>r. run_assertion a rs = Inr r) \<Longrightarrow>
   run_assertions as rs = Inr (map (\<lambda>a. projr (run_assertion a rs)) as)"
proof (induction as)
  case Nil
  show ?case by simp
next
  case (Cons a as)
  from Cons.prems [of a] obtain r where "run_assertion a rs = Inr r" by auto
  moreover have "run_assertions as rs = Inr (map (\<lambda>a. projr (run_assertion a rs)) as)"
    by (rule Cons.IH) (simp add: Cons.prems)
  ultimately show ?case by simp
qed

lemma run_assertions_generated:
  "run_assertions (generate_assertions col) rs
     = Inr (map (\<lambda>a. projr (run_assertion a rs)) (generate_assertions col))"
  by (rule run_assertions_total) (rule run_assertion_generated)

lemma validate_columns_results:
  "\<exists>report'. validate_columns cols rs (acc, report)
     = Inr (acc @ map (\<lambda>a. projr (run_assertion a rs)) (concat (map generate_assertions cols)),
            report')"
proof (induction cols arbitrary: acc report)
  case Nil
  show ?case by simp
next
  case (Cons col cols)
  let ?rs = "map (\<lambda>a. projr (run_assertion a rs)) (generate_assertions col)"
  show ?case
    using Cons.IH [of "acc @ ?rs"
        "AList.update (name col) \<lparr>cr_passed = list_all r_passed ?rs, cr_assertions = ?rs\<rparr> report"]
    by (simp add: run_assertions_generated)
qed

lemma set_alist_update: "set (AList.update k v al) \<subseteq> insert (k, v) (set al)"
  by (induction al) auto

lemma validate_columns_report:
  assumes "validate_columns cols rs (acc, report) = Inr (all_results, report')"
      and "(n, cr) \<in> set report'"
  shows "(n, cr) \<in> set report
       \<or> (\<exists>col \<in> set cols. n = name col
             \<and> run_assertions (generate_assertions col) rs = Inr (cr_assertions cr)
             \<and> cr_passed cr = list_all r_passed (cr_assertions cr))"
  using assms
proof (induction cols arbitrary: acc report)
  case Nil
  then show ?case by simp
next
  case (Cons col cols)
  let ?rs = "map (\<lambda>a. projr (run_assertion a rs)) (generate_assertions col)"
  let ?cr = "\<lparr>cr_passed = list_all r_passed ?rs, cr_assertions = ?rs\<rparr>"
  from Cons.prems(1)
  have "validate_columns cols rs (acc @ ?rs, AList.update (name col) ?cr report)
          = Inr (all_results, report')"
    by (simp add: run_assertions_generated)
  from Cons.IH [OF this Cons.prems(2)]
  consider "(n, cr) \<in> set (AList.update (name col) ?cr report)"
    | "\<exists>col \<in> set cols. n = name col
          \<and> run_assertions (generate_assertions col) rs = Inr (cr_assertions cr)
          \<and> cr_passed cr = list_all r_passed (cr_assertions cr)"
    by blast
  then show ?case
  proof cases
    case 1
    then have "(n, cr) = (name col, ?cr) \<or> (n, cr) \<in> set report"
      using set_alist_update [of "name col" ?cr report] by auto
    then show ?thesis
      by (auto simp: run_assertions_generated)
  next
    case 2
    then show ?thesis by auto
  qed
qed

lemma filter_all_iff: "(length (filter P xs) = length xs) = (\<forall>x \<in> set xs. P x)"
proof (induction xs)
  case Nil
  show ?case by simp
next
  case (Cons x xs)
  have "length (filter P xs) \<noteq> Suc (length xs)"
    using length_filter_le [of P xs] by linarith
  with Cons show ?case by auto
qed

text \<open>
  C8. \<open>validate_table\<close> always returns a report. Its flag \<open>passed\<close> is true exactly when
  at least one assertion was derived from the columns and every derived assertion,
  run against the rows of the execution, passed; \<open>total_assertions\<close> counts the derived
  assertions; and \<open>execution\<close> repeats the success flag, the row count and the error text
  of the initial execution, whatever the assertions gave.
\<close>

theorem validate_table_passed_and_execution:
  "\<exists>rep. validate_table eng ts compiled_sql data = Inr rep
     \<and> total_assertions rep = length (derived_assertions ts)
     \<and> (passed rep \<longleftrightarrow>
          derived_assertions ts \<noteq> []
          \<and> (\<forall>a \<in> set (derived_assertions ts).
                \<exists>r. run_assertion a (rows (fst (execute_sql eng compiled_sql data (table_name ts))))
                      = Inr r \<and> r_passed r))
     \<and> execution rep =
          \<lparr>ex_success = success (fst (execute_sql eng compiled_sql data (table_name ts))),
           ex_row_count = row_count (fst (execute_sql eng compiled_sql data (table_name ts))),
           ex_error = error (fst (execute_sql eng compiled_sql data (table_name ts)))\<rparr>"
proof -
  let ?ex = "fst (execute_sql eng compiled_sql data (table_name ts))"
  let ?all = "map (\<lambda>a. projr (run_assertion a (rows ?ex))) (derived_assertions ts)"
  obtain report where vc:
    "validate_columns (table_columns ts) (rows ?ex) ([], []) = Inr (?all, report)"
    using validate_columns_results [of "table_columns ts" "rows ?ex" "[]" "[]"]
    by (auto simp: derived_assertions_def)
  have ok: "\<exists>r. run_assertion a (rows ?ex) = Inr r" if "a \<in> set (derived_assertions ts)" for a
    using that run_assertion_generated by (auto simp: derived_assertions_def)
  have all_passed:
    "(length (filter r_passed ?all) = length ?all)
       = (\<forall>a \<in> set (derived_assertions ts). \<exists>r. run_assertion a (rows ?ex) = Inr r \<and> r_passed r)"
    unfolding filter_all_iff using ok by fastforce
  show ?thesis
    using all_passed by (auto simp: validate_table_def Let_def vc)
qed

text \<open>A run in which every assertion passes, and one with a null in a non-nullable column.\<close>

theorem validate_table_passed_and_execution_witness:
  "(\<exists>rep. validate_table sample_engine sample_table ''SELECT * FROM test_table'' sample_rows_ok
            = Inr rep
        \<and> total_assertions rep = 3 \<and> passed rep
        \<and> execution rep = \<lparr>ex_success = True, ex_row_count = 2, ex_error = []\<rparr>)
   \<and> (\<exists>rep. validate_table sample_engine sample_table ''SELECT * FROM test_table'' sample_rows
            = Inr rep
        \<and> total_assertions rep = 3 \<and> \<not> passed rep
        \<and> execution rep = \<lparr>ex_success = True, ex_row_count = 2, ex_error = []\<rparr>)"
proof -
  have d: "derived_assertions sample_table =
     [\<lparr>a_type = ''row_count_gte'', a_min = Some 1, a_column = None, a_expected_type = None,
       a_description = ''output has at least 1 row''\<rparr>,
      \<lparr>a_type = ''not_null'', a_min = None, a_column = Some ''id'',
                a_expected_type = None, a_description = ''id has no nulls''\<rparr>,
      \<lparr>a_type = ''row_count_gte'', a_min = Some 1, a_column = None, a_expected_type = None,
       a_description = ''output has at least 1 row''\<rparr>]"
    by code_simp
  have tn: "table_name sample_table = ''test_table''"
    by (simp add: sample_table_def)
  have ex1: "fst (execute_sql sample_engine ''SELECT * FROM test_table'' sample_rows_ok ''test_table'')
      = \<lparr>success = True, rows = sample_rows_ok, columns = [''id'', ''name''], row_count = 2,
         error = []\<rparr>"
    by code_simp
  have ex2: "fst (execute_sql sample_engine ''SELECT * FROM test_table'' sample_rows ''test_table'')
      = \<lparr>success = True, rows = sample_rows, columns = [''id'', ''name''], row_count = 2,
         error = []\<rparr>"
    by code_simp
  have n1: "filter (\<lambda>r. is_null r ''id'') sample_rows_ok = []"
    by (simp add: sample_rows_ok_def is_null_def)
  have n2: "length (filter (\<lambda>r. is_null r ''id'') sample_rows) = 1"
    by (simp add: sample_rows_def is_null_def)
  have l1: "length sample_rows_ok = 2" by (simp add: sample_rows_ok_def)
  have l2: "length sample_rows = 2" by (simp add: sample_rows_def)
  from validate_table_passed_and_execution
         [of sample_engine sample_table "''SELECT * FROM test_table''" sample_rows_ok]
  have "\<exists>rep. validate_table sample_engine sample_table ''SELECT * FROM test_table'' sample_rows_ok
            = Inr rep
        \<and> total_assertions rep = 3 \<and> passed rep
        \<and> execution rep = \<lparr>ex_success = True, ex_row_count = 2, ex_error = []\<rparr>"
    by (simp add: d tn ex1 run_assertion_def n1 l1 numeral_3_eq_3)
  moreover
  from validate_table_passed_and_execution
         [of sample_engine sample_table "''SELECT * FROM test_table''" sample_rows]
  have "\<exists>rep. validate_table sample_engine sample_table ''SELECT * FROM test_table'' sample_rows
            = Inr rep
        \<and> total_assertions rep = 3 \<and> \<not> passed rep
        \<and> execution rep = \<lparr>ex_success = True, ex_row_count = 2, ex_error = []\<rparr>"
    by (simp add: d tn ex2 run_assertion_def n2 l2 numeral_3_eq_3)
  ultimately show ?thesis by blast
qed

lemma execute_sql_failure_rows:
  "\<not> success (fst (execute_sql eng q data tn)) \<Longrightarrow> rows (fst (execute_sql eng q data tn)) = []"
  by (auto simp: execute_sql_def Let_def failure_def split: sum.splits prod.splits)

lemma str_of_int_1: "str_of_int 1 = ''1''"
  by code_simp

lemma str_of_nat_0: "str_of_nat 0 = ''0''"
  by code_simp

lemma run_assertion_no_rows:
  assumes "a \<in> set (generate_assertions col)"
  shows "run_assertion a ([] :: 'v row list) = Inr (result_on_no_rows a)"
  using assms
  by (auto simp: generate_assertions_def run_assertion_def result_on_no_rows_def Let_def
        str_of_int_1 str_of_nat_0 split: if_splits)

lemma find_snoc:
  "find P (xs @ [x]) = (case find P xs of None \<Rightarrow> (if P x then Some x else None) | Some y \<Rightarrow> Some y)"
  by (induction xs) auto

lemma validate_columns_map_of:
  "validate_columns cols rs (acc, report) = Inr (all_results, report') \<Longrightarrow>
   map_of report' n =
     (case find (\<lambda>c. name c = n) (rev cols) of
        None \<Rightarrow> map_of report n
      | Some c \<Rightarrow>
          Some \<lparr>cr_passed = list_all r_passed
                   (map (\<lambda>a. projr (run_assertion a rs)) (generate_assertions c)),
                cr_assertions = map (\<lambda>a. projr (run_assertion a rs)) (generate_assertions c)\<rparr>)"
proof (induction cols arbitrary: acc report)
  case Nil
  then show ?case by simp
next
  case (Cons col cols)
  let ?rs = "map (\<lambda>a. projr (run_assertion a rs)) (generate_assertions col)"
  let ?cr = "\<lparr>cr_passed = list_all r_passed ?rs, cr_assertions = ?rs\<rparr>"
  from Cons.prems
  have "validate_columns cols rs (acc @ ?rs, AList.update (name col) ?cr report)
          = Inr (all_results, report')"
    by (simp add: run_assertions_generated)
  from Cons.IH [OF this] show ?case
    by (auto simp: find_snoc update_conv' split: option.splits)
qed

lemma find_Some_in: "find P xs = Some x \<Longrightarrow> P x \<and> x \<in> set xs"
  by (induction xs) (auto split: if_splits)

lemma find_last_column:
  assumes "col \<in> set cols"
  shows "\<exists>c \<in> set cols. name c = name col
           \<and> find (\<lambda>c. name c = name col) (rev cols) = Some c"
proof (cases "find (\<lambda>c. name c = name col) (rev cols)")
  case None
  with assms show ?thesis by (auto simp: find_None_iff)
next
  case (Some c)
  from find_Some_in [OF this] have "name c = name col \<and> c \<in> set cols"
    by simp
  with Some show ?thesis by auto
qed

lemma count_row_count_derived:
  "length (filter (\<lambda>a. a_type a = ''row_count_gte'') (concat (map generate_assertions cols)))
     = length cols"
  by (induction cols) (simp_all add: generate_assertions_def)

lemma generated_other_type:
  "(\<exists>a \<in> set (generate_assertions col). a_type a \<noteq> ''row_count_gte'')
     = (\<not> nullable col \<or> truthy (type_cast (transformations col))
        \<or> regex_enabled (regex (transformations col)))"
  by (auto simp: generate_assertions_def)

text \<open>
  C10, amended. When the compiled SQL fails to execute and the table has at least one
  column, \<open>validate_table\<close> still returns a report, with every derived assertion run
  against the empty list of rows. Every column has an entry in the report under its
  name, the entry of a column with that name (the column itself when the names are
  distinct), and every entry holds the results of the assertions of its column on no
  rows: the row-count result fails, with the detail \<open>Expected >= 1 rows, got 0\<close>, and the
  \<open>not_null\<close>, \<open>type_check\<close> and \<open>no_error\<close> results pass. The flag \<open>passed\<close> of the report
  and of every entry is false, the execution is marked as failed, as many results fail
  as the table has columns, and some result reads passed exactly when some column is
  non-nullable, has a type cast or has the regex step enabled.
\<close>

theorem validate_table_failed_execution:
  fixes eng :: "('c, 'v) engine"
  assumes failed: "\<not> success (fst (execute_sql eng compiled_sql data (table_name ts)))"
      and cols: "table_columns ts \<noteq> []"
  shows "\<exists>rep. validate_table eng ts compiled_sql data = Inr rep
     \<and> \<not> passed rep
     \<and> \<not> ex_success (execution rep)
     \<and> total_assertions rep = length (derived_assertions ts)
     \<and> passed_count rep
         = length (filter (\<lambda>a. a_type a \<noteq> ''row_count_gte'') (derived_assertions ts))
     \<and> failed_count rep = length (table_columns ts)
     \<and> (\<forall>col \<in> set (table_columns ts).
           \<exists>c \<in> set (table_columns ts). name c = name col
             \<and> (distinct (map name (table_columns ts)) \<longrightarrow> c = col)
             \<and> map_of (columns_report rep) (name col)
                 = Some \<lparr>cr_passed = False,
                         cr_assertions = map result_on_no_rows (generate_assertions c)\<rparr>)
     \<and> (\<forall>(n, cr) \<in> set (columns_report rep).
           \<exists>c \<in> set (table_columns ts). n = name c
             \<and> cr = \<lparr>cr_passed = False,
                      cr_assertions = map result_on_no_rows (generate_assertions c)\<rparr>)
     \<and> (0 < passed_count rep \<longleftrightarrow>
          (\<exists>col \<in> set (table_columns ts).
              \<not> nullable col \<or> truthy (type_cast (transformations col))
              \<or> regex_enabled (regex (transformations col))))"
proof -
  let ?ex = "fst (execute_sql eng compiled_sql data (table_name ts))"
  let ?run = "\<lambda>a. projr (run_assertion a ([] :: 'v row list))"
  let ?all = "map ?run (derived_assertions ts)"
  let ?entry = "\<lambda>c. \<lparr>cr_passed = False,
                       cr_assertions = map result_on_no_rows (generate_assertions c)\<rparr>"
  have rows: "rows ?ex = []"
    by (rule execute_sql_failure_rows [OF failed])
  obtain report where vc:
    "validate_columns (table_columns ts) ([] :: 'v row list) ([], []) = Inr (?all, report)"
    using validate_columns_results [of "table_columns ts" "[] :: 'v row list" "[]" "[]"]
    by (auto simp: derived_assertions_def)
  have gen: "map ?run (generate_assertions c) = map result_on_no_rows (generate_assertions c)"
    for c
    by (rule map_cong [OF refl]) (simp add: run_assertion_no_rows)
  have all: "?all = map result_on_no_rows (derived_assertions ts)"
    unfolding derived_assertions_def map_concat map_map
    by (simp add: gen o_def)
  have not_all: "\<not> list_all r_passed (map result_on_no_rows (generate_assertions c))" for c
    by (simp add: generate_assertions_def result_on_no_rows_def)
  have entry: "\<lparr>cr_passed = list_all r_passed (map ?run (generate_assertions c)),
               cr_assertions = map ?run (generate_assertions c)\<rparr> = ?entry c" for c
    by (simp add: gen not_all)
  have npassed: "length (filter r_passed ?all)
          = length (filter (\<lambda>a. a_type a \<noteq> ''row_count_gte'') (derived_assertions ts))"
    unfolding all by (simp add: filter_map o_def result_on_no_rows_def)
  have nrow: "length (filter (\<lambda>a. a_type a = ''row_count_gte'') (derived_assertions ts))
                = length (table_columns ts)"
    by (simp add: derived_assertions_def count_row_count_derived)
  have split: "length (derived_assertions ts)
      = length (filter (\<lambda>a. a_type a = ''row_count_gte'') (derived_assertions ts))
        + length (filter (\<lambda>a. a_type a \<noteq> ''row_count_gte'') (derived_assertions ts))"
    using sum_length_filter_compl [of "\<lambda>a. a_type a = ''row_count_gte''" "derived_assertions ts"]
    by simp
  have nfailed: "length ?all - length (filter r_passed ?all) = length (table_columns ts)"
    using npassed nrow split by simp
  from cols have pos: "0 < length (table_columns ts)" by simp
  with nfailed have notall: "length (filter r_passed ?all) \<noteq> length ?all"
    by linarith
  have has_entry: "\<exists>c \<in> set (table_columns ts). name c = name col
             \<and> (distinct (map name (table_columns ts)) \<longrightarrow> c = col)
             \<and> map_of report (name col) = Some (?entry c)"
    if col: "col \<in> set (table_columns ts)" for col
  proof -
    from find_last_column [OF col] obtain c where
      c: "c \<in> set (table_columns ts)" "name c = name col"
         "find (\<lambda>c. name c = name col) (rev (table_columns ts)) = Some c"
      by auto
    from validate_columns_map_of [OF vc, of "name col"] c(3)
    have "map_of report (name col) = Some (?entry c)"
      by (simp add: entry)
    moreover have "c = col" if "distinct (map name (table_columns ts))"
      using that c(1,2) col by (auto simp: distinct_map inj_on_def)
    ultimately show ?thesis using c by auto
  qed
  have entries: "\<exists>c \<in> set (table_columns ts). n = name c \<and> cr = ?entry c"
    if "(n, cr) \<in> set report" for n cr
  proof -
    from validate_columns_report [OF vc that]
    obtain c where c: "c \<in> set (table_columns ts)" "n = name c"
        "run_assertions (generate_assertions c) ([] :: 'v row list) = Inr (cr_assertions cr)"
        "cr_passed cr = list_all r_passed (cr_assertions cr)"
      by auto
    from c(3) have "cr_assertions cr = map result_on_no_rows (generate_assertions c)"
      by (simp add: run_assertions_generated gen)
    with c(4) have "cr = ?entry c"
      by (simp add: not_all)
    with c show ?thesis by auto
  qed
  have some: "0 < length (filter (\<lambda>a. a_type a \<noteq> ''row_count_gte'') (derived_assertions ts))
          \<longleftrightarrow> (\<exists>col \<in> set (table_columns ts).
              \<not> nullable col \<or> truthy (type_cast (transformations col))
              \<or> regex_enabled (regex (transformations col)))"
  proof -
    have "(0 < length (filter (\<lambda>a. a_type a \<noteq> ''row_count_gte'') (derived_assertions ts)))
            = (\<exists>col \<in> set (table_columns ts).
                 \<exists>a \<in> set (generate_assertions col). a_type a \<noteq> ''row_count_gte'')"
      unfolding length_greater_0_conv filter_empty_conv derived_assertions_def by auto
    then show ?thesis by (simp only: generated_other_type)
  qed
  have "validate_table eng ts compiled_sql data
          = Inr \<lparr>passed = False, total_assertions = length ?all,
                 passed_count = length (filter r_passed ?all),
                 failed_count = length ?all - length (filter r_passed ?all),
                 execution = \<lparr>ex_success = False, ex_row_count = row_count ?ex,
                              ex_error = error ?ex\<rparr>,
                 columns_report = report\<rparr>"
    using failed notall by (simp add: validate_table_def Let_def rows vc)
  then show ?thesis
    using npassed nfailed has_entry entries some by auto
qed

text \<open>The sample table with a query on a relation that does not exist.\<close>

theorem validate_table_failed_execution_witness:
  "\<not> success (fst (execute_sql sample_engine ''SELECT * FROM missing'' sample_rows
                   (table_name sample_table)))
   \<and> table_columns sample_table \<noteq> []
   \<and> table_columns sample_table = [sample_id_column, sample_name_column]
   \<and> distinct (map name (table_columns sample_table))
   \<and> (\<exists>rep. validate_table sample_engine sample_table ''SELECT * FROM missing'' sample_rows
               = Inr rep
          \<and> \<not> passed rep \<and> \<not> ex_success (execution rep)
          \<and> total_assertions rep = 3 \<and> passed_count rep = 1 \<and> failed_count rep = 2
          \<and> map_of (columns_report rep) ''id''
              = Some \<lparr>cr_passed = False,
                      cr_assertions =
                        [row_count_failed,
                         \<lparr>r_type = ''not_null'', r_description = ''id has no nulls'',
                          r_passed = True, r_detail = []\<rparr>]\<rparr>
          \<and> map_of (columns_report rep) ''name''
              = Some \<lparr>cr_passed = False, cr_assertions = [row_count_failed]\<rparr>)"
proof -
  have h1: "\<not> success (fst (execute_sql sample_engine ''SELECT * FROM missing'' sample_rows
                   (table_name sample_table)))"
    by code_simp
  have cs: "table_columns sample_table = [sample_id_column, sample_name_column]"
    by (simp add: sample_table_def sample_id_column_def sample_name_column_def)
  have h2: "table_columns sample_table \<noteq> []"
    by (simp add: cs)
  have dist: "distinct (map name (table_columns sample_table))"
    by (simp add: cs sample_id_column_def sample_name_column_def)
  have d: "map a_type (derived_assertions sample_table)
             = [''row_count_gte'', ''not_null'', ''row_count_gte'']"
    by code_simp
  have l: "length (derived_assertions sample_table) = 3"
    using arg_cong [OF d, of length] by simp
  have f: "length (filter (\<lambda>a. a_type a \<noteq> ''row_count_gte'') (derived_assertions sample_table)) = 1"
    using arg_cong [OF d, of "\<lambda>xs. length (filter (\<lambda>t. t \<noteq> ''row_count_gte'') xs)"]
    by (simp add: filter_map o_def)
  have g1: "map result_on_no_rows (generate_assertions sample_id_column)
              = [row_count_failed,
                 \<lparr>r_type = ''not_null'', r_description = ''id has no nulls'',
                  r_passed = True, r_detail = []\<rparr>]"
    by code_simp
  have g2: "map result_on_no_rows (generate_assertions sample_name_column) = [row_count_failed]"
    by code_simp
  have n: "name sample_id_column = ''id''" "name sample_name_column = ''name''"
    by (simp_all add: sample_id_column_def sample_name_column_def)
  from validate_table_failed_execution [OF h1 h2]
  obtain rep where rep:
    "validate_table sample_engine sample_table ''SELECT * FROM missing'' sample_rows = Inr rep"
    "\<not> passed rep" "\<not> ex_success (execution rep)"
    "total_assertions rep = length (derived_assertions sample_table)"
    "passed_count rep
       = length (filter (\<lambda>a. a_type a \<noteq> ''row_count_gte'') (derived_assertions sample_table))"
    "failed_count rep = length (table_columns sample_table)"
    and entry: "\<forall>col \<in> set (table_columns sample_table).
           \<exists>c \<in> set (table_columns sample_table). name c = name col
             \<and> (distinct (map name (table_columns sample_table)) \<longrightarrow> c = col)
             \<and> map_of (columns_report rep) (name col)
                 = Some \<lparr>cr_passed = False,
                         cr_assertions = map result_on_no_rows (generate_assertions c)\<rparr>"
    by blast
  from entry dist
  have e: "map_of (columns_report rep) (name col)
             = Some \<lparr>cr_passed = False,
                     cr_assertions = map result_on_no_rows (generate_assertions col)\<rparr>"
    if "col \<in> set (table_columns sample_table)" for col
    using that by blast
  have e1: "map_of (columns_report rep) ''id''
              = Some \<lparr>cr_passed = False,
                      cr_assertions =
                        [row_count_failed,
                         \<lparr>r_type = ''not_null'', r_description = ''id has no nulls'',
                          r_passed = True, r_detail = []\<rparr>]\<rparr>"
    using e [of sample_id_column] by (simp add: cs n g1)
  have e2: "map_of (columns_report rep) ''name''
              = Some \<lparr>cr_passed = False, cr_assertions = [row_count_failed]\<rparr>"
    using e [of sample_name_column] by (simp add: cs n g2)
  from rep l f cs have "total_assertions rep = 3" "passed_count rep = 1" "failed_count rep = 2"
    by simp_all
  with rep(1-3) e1 e2 h1 h2 cs dist show ?thesis by blast
qed

text \<open>
  C10 as stated fails: for a table with one nullable column, without type cast and
  without regex, the only result is the failed row-count result, and no individual
  result reads passed.
\<close>

theorem validate_table_no_passed_result_counterexample:
  "\<not> success (fst (execute_sql sample_engine ''SELECT * FROM missing'' []
                   (table_name sample_plain_table)))
   \<and> table_columns sample_plain_table \<noteq> []
   \<and> validate_table sample_engine sample_plain_table ''SELECT * FROM missing'' []
       = Inr \<lparr>passed = False, total_assertions = 1, passed_count = 0, failed_count = 1,
              execution = \<lparr>ex_success = False, ex_row_count = 0,
                           ex_error = ''Catalog Error: Table does not exist''\<rparr>,
              columns_report =
                [(''name'', \<lparr>cr_passed = False, cr_assertions = [row_count_failed]\<rparr>)]\<rparr>"
  by code_simp


lemma count_row_count_generated:
  "count_type ''row_count_gte'' (map (\<lambda>a. projr (run_assertion a rs)) (generate_assertions col)) = 1"
  by (simp add: count_type_def generate_assertions_def run_assertion_def Let_def)

lemma count_type_append: "count_type ty (xs @ ys) = count_type ty xs + count_type ty ys"
  by (simp add: count_type_def)

lemma count_row_count_columns:
  "count_type ''row_count_gte''
     (map (\<lambda>a. projr (run_assertion a rs)) (concat (map generate_assertions cols)))
   = length cols"
  by (induction cols) (simp_all add: count_type_append count_row_count_generated, simp add: count_type_def)

text \<open>
  C4, amended. The assertions of one column are: one row-count assertion (at least 1
  row), then \<open>not_null\<close> iff the column is not nullable, \<open>type_check\<close> iff a type cast is
  configured, \<open>no_error\<close> iff the regex step is enabled, in this order. The row-count
  assertion is derived once for each column, not once for the table: the validation of
  a table runs as many row-count assertions as the table has columns.
\<close>

theorem generate_assertions_per_column:
  "map a_type (generate_assertions col)
     = [''row_count_gte'']
       @ (if \<not> nullable col then [''not_null''] else [])
       @ (if truthy (type_cast (transformations col)) then [''type_check''] else [])
       @ (if regex_enabled (regex (transformations col)) then [''no_error''] else [])
   \<and> a_min (hd (generate_assertions col)) = Some 1
   \<and> (\<exists>all_results report.
         validate_columns cols rs ([], []) = Inr (all_results, report)
         \<and> count_type ''row_count_gte'' all_results = length cols)"
proof -
  from validate_columns_results [of cols rs "[]" "[]"]
  have "\<exists>all_results report.
         validate_columns cols rs ([], []) = Inr (all_results, report)
         \<and> count_type ''row_count_gte'' all_results = length cols"
    by (auto simp: count_row_count_columns)
  then show ?thesis
    by (simp add: generate_assertions_def)
qed

text \<open>
  C4 as stated fails: the sample table has two columns, and two row-count assertions are
  derived and run for it.
\<close>

theorem table_row_count_assertions_counterexample:
  "map a_type (concat (map generate_assertions (table_columns sample_table)))
     = [''row_count_gte'', ''not_null'', ''row_count_gte'']
   \<and> (case validate_columns (table_columns sample_table) sample_rows ([], []) of
        Inl e \<Rightarrow> False
      | Inr (all_results, report) \<Rightarrow> count_type ''row_count_gte'' all_results = 2)"
  by code_simp

end
